theory Spec2Isabelle
  imports Complex_Main "HOL-Library.Product_Lexorder" "HOL-Library.List_Lexorder"
    "HOL-Library.Char_ord" "HOL-Library.Sublist" "HOL-Library.Multiset"
begin

section \<open>Data model\<close>

text \<open>
  The analysis classes of \<^verbatim>\<open>app.py\<close> work on a pandas DataFrame read from a CSV file.
  A frame is modelled as the list of its rows, in file order. A cell that is empty in
  the file is a missing value (NaN for numbers and identifiers, NaT for date-times): it
  is \<open>None\<close> here. Numbers are real numbers: the rounding of float64 and the overflow of
  int64 are not part of the model.
\<close>

record datetime =
  year :: int
  month :: int
  day :: int
  hour :: int
  minute :: int
  second :: int

text \<open>A calendar date \<^verbatim>\<open>dt.date\<close>: year, month, day, ordered lexicographically.\<close>

type_synonym date = "int \<times> int \<times> int"

definition date_of :: "datetime \<Rightarrow> date" where
  "date_of t = (year t, month t, day t)"

text \<open>
  One row. The three time columns hold \<open>'t\<close>: text as \<^verbatim>\<open>read_csv\<close> delivers them,
  \<open>datetime\<close> after \<^verbatim>\<open>load_data\<close>.
\<close>

record 't ridership =
  Timestamp :: "'t option"
  Departure_Time :: "'t option"
  Arrival_Time :: "'t option"
  passenger_count :: "real option"
  Route_ID :: "string option"
  Entry_Station_ID :: "string option"
  Exit_Station_ID :: "string option"
  Region :: "string option"
  Total_Fees :: "real option"

type_synonym table = "datetime ridership list"

datatype error =
  SchemaError  \<comment> \<open>the specification's name for the exception \<^verbatim>\<open>pd.to_datetime\<close> raises on text that is no date-time\<close>
| InvalidParameterError  \<comment> \<open>named by the specification; no statement of the source raises it\<close>

section \<open>The pandas operations the source calls\<close>

text \<open>
  \<^verbatim>\<open>Series.sum\<close> skips missing values (\<^verbatim>\<open>skipna=True\<close>); the sum of no value is 0.
\<close>

definition nansum :: "real option list \<Rightarrow> real" where
  "nansum vs = sum_list (map (\<lambda>v. case v of None \<Rightarrow> 0 | Some x \<Rightarrow> x) vs)"

text \<open>
  \<^verbatim>\<open>df.groupby(key)[col].sum()\<close>: one entry for each distinct key, ascending by key
  (\<^verbatim>\<open>sort=True\<close>); rows whose key is missing belong to no group (\<^verbatim>\<open>dropna=True\<close>).
\<close>

definition groupby_sum ::
  "('r \<Rightarrow> 'k::linorder option) \<Rightarrow> ('r \<Rightarrow> real option) \<Rightarrow> 'r list \<Rightarrow> ('k \<times> real) list" where
  "groupby_sum key col df =
     map (\<lambda>k. (k, nansum (map col (filter (\<lambda>r. key r = Some k) df))))
       (sort (remdups (List.map_filter key df)))"

text \<open>
  \<^verbatim>\<open>sort_values(ascending=False)\<close>: descending by value. pandas reverses the series,
  sorts it ascending and reverses the outcome; with a stable sort, entries of equal value
  keep their order.
\<close>

definition sort_values_desc :: "('k \<times> 'v::linorder) list \<Rightarrow> ('k \<times> 'v) list" where
  "sort_values_desc s = rev (sort_key snd (rev s))"

text \<open>
  \<^verbatim>\<open>head(n)\<close>: the first \<open>n\<close> entries; for a negative \<open>n\<close>, all entries but the last
  \<open>|n|\<close> (the slice \<^verbatim>\<open>[:n]\<close>).
\<close>

definition head :: "int \<Rightarrow> 'a list \<Rightarrow> 'a list" where
  "head n s = (if 0 \<le> n then take (nat n) s else take (length s - nat (- n)) s)"

text \<open>
  \<^verbatim>\<open>value_counts()\<close>: the number of occurrences of each distinct value that is not
  missing, descending by count; values are met in order of first appearance.
\<close>

definition value_counts :: "'k option list \<Rightarrow> ('k \<times> nat) list" where
  "value_counts xs =
     (let present = List.map_filter id xs
      in sort_values_desc
           (map (\<lambda>k. (k, length (filter (\<lambda>x. x = k) present))) (rev (remdups (rev present)))))"

text \<open>
  \<^verbatim>\<open>Series.mean()\<close> is NaN on an empty series; \<^verbatim>\<open>Series.std()\<close> (\<^verbatim>\<open>ddof=1\<close>) divides the
  sum of squared deviations by \<open>N - 1\<close> and is NaN when \<open>N \<le> 1\<close>. NaN is \<open>None\<close>.
\<close>

definition series_mean :: "real list \<Rightarrow> real option" where
  "series_mean vs = (if vs = [] then None else Some (sum_list vs / real (length vs)))"

definition series_std :: "real list \<Rightarrow> real option" where
  "series_std vs =
     (if length vs \<le> 1 then None
      else let avg = sum_list vs / real (length vs)
           in Some (sqrt (sum_list (map (\<lambda>v. (v - avg)\<^sup>2) vs) / real (length vs - 1))))"

section \<open>DataLoader\<close>


definition to_datetime_coerce :: "(string \<Rightarrow> datetime option) \<Rightarrow> string option list \<Rightarrow> datetime option list" where
  "to_datetime_coerce parse cs = map (\<lambda>c. case c of None \<Rightarrow> None | Some s \<Rightarrow> parse s) cs"



section \<open>PeakCongestionAnalysis\<close>





section \<open>PopularRouteAnalysis\<close>

text \<open>
  The argument \<open>n\<close> is optional in the source: \<open>None\<close> is the default, 5. Neither
  function looks at \<open>n\<close> before it reaches \<^verbatim>\<open>head\<close>, so both always return; the result
  is a sum so that this can be said.
\<close>

definition top_routes :: "table \<Rightarrow> int option \<Rightarrow> error + (string \<times> real) list" where
  "top_routes df n =
     Inr (head (case n of None \<Rightarrow> 5 | Some k \<Rightarrow> k)
            (sort_values_desc (groupby_sum Route_ID passenger_count df)))"

definition top_transfer_points :: "table \<Rightarrow> int option \<Rightarrow> error + (string \<times> nat) list" where
  "top_transfer_points df n =
     (let transfers = map Entry_Station_ID df @ map Exit_Station_ID df
      in Inr (head (case n of None \<Rightarrow> 5 | Some k \<Rightarrow> k) (value_counts transfers)))"

section \<open>ServiceDisruptionDetection\<close>

text \<open>
  A comparison with NaN is false: where the mean or the standard deviation is NaN, the
  mask selects no day. The default of \<open>z_thresh\<close> is 2.5.
\<close>

definition detect_anomalies :: "table \<Rightarrow> real option \<Rightarrow> (date \<times> real) list \<times> (date \<times> real) list" where
  "detect_anomalies df z_thresh =
     (let z = (case z_thresh of None \<Rightarrow> 5 / 2 | Some v \<Rightarrow> v);
          daily_counts = groupby_sum (\<lambda>r. map_option date_of (Timestamp r)) passenger_count df;
          mean = series_mean (map snd daily_counts);
          std = series_std (map snd daily_counts);
          anomalies = filter (\<lambda>(d, t). case mean of
                                None \<Rightarrow> False
                              | Some m \<Rightarrow> (case std of
                                    None \<Rightarrow> False
                                  | Some s \<Rightarrow> \<bar>t - m\<bar> > z * s)) daily_counts
      in (anomalies, daily_counts))"

section \<open>RegionalPerformanceAnalysis\<close>



section \<open>FilterUI\<close>

text \<open>
  \<open>regions\<close> and \<open>routes\<close> are the selections the two sidebar widgets return. An empty
  selection is falsy and leaves the frame as it is; \<^verbatim>\<open>isin\<close> is membership. Each
  \<^verbatim>\<open>df[mask]\<close> builds a new frame and the assignment rebinds the local name, so the
  function is a function of the frame it receives.
\<close>

definition apply_filters :: "table \<Rightarrow> string option list \<Rightarrow> string option list \<Rightarrow> table" where
  "apply_filters df regions routes =
     (let df1 = (if regions \<noteq> [] then filter (\<lambda>r. Region r \<in> set regions) df else df);
          df2 = (if routes \<noteq> [] then filter (\<lambda>r. Route_ID r \<in> set routes) df1 else df1)
      in df2)"

section \<open>Example frames\<close>

text \<open>A row with every cell missing, to build examples from.\<close>

definition blank :: "datetime ridership" where
  "blank = \<lparr>Timestamp = None, Departure_Time = None, Arrival_Time = None,
     passenger_count = None, Route_ID = None, Entry_Station_ID = None,
     Exit_Station_ID = None, Region = None, Total_Fees = None\<rparr>"

definition at_date :: "int \<Rightarrow> int \<Rightarrow> int \<Rightarrow> datetime" where
  "at_date y m d = \<lparr>year = y, month = m, day = d, hour = 0, minute = 0, second = 0\<rparr>"

definition filter_example :: table where
  "filter_example =
     [blank\<lparr>Region := Some ''North'', Route_ID := Some ''R1''\<rparr>,
      blank\<lparr>Region := Some ''North'', Route_ID := Some ''R2''\<rparr>,
      blank\<lparr>Region := Some ''South'', Route_ID := Some ''R1''\<rparr>]"

definition routes_example :: table where
  "routes_example =
     [blank\<lparr>Route_ID := Some ''R1'', passenger_count := Some 10\<rparr>,
      blank\<lparr>Route_ID := Some ''R2'', passenger_count := Some 50\<rparr>,
      blank\<lparr>Route_ID := Some ''R1'', passenger_count := Some 5\<rparr>]"

definition loop_example :: table where
  "loop_example = [blank\<lparr>Entry_Station_ID := Some ''S1'', Exit_Station_ID := Some ''S1''\<rparr>]"



definition spread_example :: table where
  "spread_example =
     [blank\<lparr>Timestamp := Some (at_date 2024 1 3), passenger_count := Some 8\<rparr>,
      blank\<lparr>Timestamp := Some (at_date 2024 1 1), passenger_count := Some 0\<rparr>,
      blank\<lparr>Timestamp := Some (at_date 2024 1 2), passenger_count := Some 3\<rparr>,
      blank\<lparr>Timestamp := Some (at_date 2024 1 2), passenger_count := Some 1\<rparr>]"

definition two_day_example :: table where
  "two_day_example =
     [blank\<lparr>Timestamp := Some (at_date 2024 1 1), passenger_count := Some 10\<rparr>,
      blank\<lparr>Timestamp := Some (at_date 2024 1 2), passenger_count := Some 1000\<rparr>]"







section \<open>Facts about the pandas operations\<close>

lemma set_map_filter: "set (List.map_filter f xs) = {k. \<exists>r\<in>set xs. f r = Some k}"
  by (induction xs) (auto simp: List.map_filter_def)

lemma groupby_sum_keys:
  "map fst (groupby_sum key col df) = sort (remdups (List.map_filter key df))"
  by (simp add: groupby_sum_def comp_def)

lemma groupby_sum_sorted: "sorted (map fst (groupby_sum key col df))"
  by (simp add: groupby_sum_keys)

lemma groupby_sum_distinct: "distinct (map fst (groupby_sum key col df))"
  by (simp add: groupby_sum_keys)

lemma groupby_sum_key_set:
  "set (map fst (groupby_sum key col df)) = {k. \<exists>r\<in>set df. key r = Some k}"
  by (simp add: groupby_sum_keys set_map_filter)

lemma groupby_sum_entry:
  "(k, v) \<in> set (groupby_sum key col df) \<longleftrightarrow>
     (\<exists>r\<in>set df. key r = Some k) \<and> v = nansum (map col (filter (\<lambda>r. key r = Some k) df))"
  by (auto simp: groupby_sum_def set_map_filter)






lemma sort_values_desc_mset: "mset (sort_values_desc s) = mset s"
  by (simp add: sort_values_desc_def)

lemma sort_values_desc_set: "set (sort_values_desc s) = set s"
  by (simp add: sort_values_desc_def)


lemma sort_values_desc_sorted: "sorted_wrt (\<lambda>a b. snd a \<ge> snd b) (sort_values_desc s)"
proof -
  have "sorted (map snd (sort_key snd (rev s)))" by simp
  then have "sorted_wrt (\<lambda>a b. snd a \<le> snd b) (sort_key snd (rev s))"
    by (simp add: sorted_map)
  then show ?thesis
    by (simp add: sort_values_desc_def sorted_wrt_rev)
qed


lemma sort_values_desc_distinct:
  "distinct (map fst (sort_values_desc s)) = distinct (map fst s)"
proof -
  have "mset (map fst (sort_values_desc s)) = mset (map fst s)"
    by (simp add: sort_values_desc_mset)
  then show ?thesis by (metis mset_eq_imp_distinct_iff)
qed


section \<open>Filtering\<close>

text \<open>
  Claim C2. With both selections empty \<open>apply_filters\<close> returns the frame as it is. With
  both non-empty exactly the rows whose region is selected and whose route is selected are
  kept, in their order. With only regions selected the result is a subsequence of the
  frame, and the region of every row kept is a selected one. The result is a new value
  computed from the frame; the frame itself is an argument that nothing assigns to.
\<close>

theorem apply_filters_spec:
  "apply_filters df [] [] = df \<and>
   (R \<noteq> [] \<and> Q \<noteq> [] \<longrightarrow>
      apply_filters df R Q = filter (\<lambda>r. Region r \<in> set R \<and> Route_ID r \<in> set Q) df \<and>
      (\<forall>r. r \<in> set (apply_filters df R Q) \<longleftrightarrow>
            r \<in> set df \<and> Region r \<in> set R \<and> Route_ID r \<in> set Q)) \<and>
   (R \<noteq> [] \<longrightarrow>
      subseq (apply_filters df R []) df \<and>
      set (apply_filters df R []) \<subseteq> set df \<and>
      (\<forall>r\<in>set (apply_filters df R []). Region r \<in> set R))"
  by (auto simp: apply_filters_def conj_commute)

theorem apply_filters_spec_witness:
  "apply_filters filter_example [Some ''North''] [Some ''R1'']
     = [blank\<lparr>Region := Some ''North'', Route_ID := Some ''R1''\<rparr>] \<and>
   set (apply_filters filter_example [Some ''North''] []) \<subseteq> set filter_example \<and>
   apply_filters filter_example [Some ''North''] []
     = [blank\<lparr>Region := Some ''North'', Route_ID := Some ''R1''\<rparr>,
        blank\<lparr>Region := Some ''North'', Route_ID := Some ''R2''\<rparr>]"
  using apply_filters_spec [of filter_example "[Some ''North'']" "[Some ''R1'']"]
  by (simp add: filter_example_def blank_def apply_filters_def)

lemma routes_example_top2:
  "top_routes routes_example (Some 2) = Inr [(''R2'', 50), (''R1'', 15)]"
  by (simp add: routes_example_def top_routes_def head_def sort_values_desc_def groupby_sum_def
      nansum_def blank_def List.map_filter_def)

lemma loop_example_counts:
  "top_transfer_points loop_example n = Inr (head (case n of None \<Rightarrow> 5 | Some k \<Rightarrow> k) [(''S1'', 2)])"
  by (simp add: loop_example_def top_transfer_points_def sort_values_desc_def
      value_counts_def blank_def List.map_filter_def eval_nat_numeral)

section \<open>Popular routes and transfer points\<close>

text \<open>
  Claim C3. \<open>top_routes\<close> returns a prefix of one ranking of the routes that does not
  depend on \<open>n\<close>: the ranking has one entry for each route of the frame, the entry of a
  route carries the sum of \<open>passenger_count\<close> over the rows of that route, and the sums
  descend. The prefix has 5 entries by default and \<open>n\<close> entries for \<open>n \<ge> 0\<close> (fewer
  when the ranking is shorter). On the rows (R1, 10), (R2, 50), (R1, 5) with \<open>n = 2\<close> the
  result is (R2, 50), (R1, 15).
\<close>

theorem top_routes_spec:
  "(\<exists>ranking.
      distinct (map fst ranking) \<and>
      (\<forall>k v. (k, v) \<in> set ranking \<longleftrightarrow>
         (\<exists>r\<in>set df. Route_ID r = Some k) \<and>
         v = nansum (map passenger_count (filter (\<lambda>r. Route_ID r = Some k) df))) \<and>
      sorted_wrt (\<lambda>a b. snd a \<ge> snd b) ranking \<and>
      top_routes df None = Inr (take 5 ranking) \<and>
      (\<forall>n\<ge>0. top_routes df (Some n) = Inr (take (nat n) ranking))) \<and>
   top_routes routes_example (Some 2) = Inr [(''R2'', 50), (''R1'', 15)]"
proof -
  let ?g = "groupby_sum Route_ID passenger_count df"
  let ?ranking = "sort_values_desc ?g"
  have "distinct (map fst ?ranking)"
    by (simp add: sort_values_desc_distinct groupby_sum_distinct)
  moreover have "\<forall>k v. (k, v) \<in> set ?ranking \<longleftrightarrow>
         (\<exists>r\<in>set df. Route_ID r = Some k) \<and>
         v = nansum (map passenger_count (filter (\<lambda>r. Route_ID r = Some k) df))"
    by (simp add: sort_values_desc_set groupby_sum_entry)
  moreover have "sorted_wrt (\<lambda>a b. snd a \<ge> snd b) ?ranking"
    by (rule sort_values_desc_sorted)
  moreover have "top_routes df None = Inr (take 5 ?ranking)"
    by (simp add: top_routes_def head_def)
  moreover have "\<forall>n\<ge>0. top_routes df (Some n) = Inr (take (nat n) ?ranking)"
    by (simp add: top_routes_def head_def)
  ultimately show ?thesis
    using routes_example_top2 by blast
qed

theorem top_routes_spec_witness:
  "\<exists>ranking. sorted_wrt (\<lambda>a b. snd a \<ge> snd b) ranking \<and>
     top_routes routes_example (Some 1) = Inr (take 1 ranking) \<and>
     (''R1'', 15) \<in> set ranking"
proof -
  from top_routes_spec [of routes_example] obtain ranking where
    s: "sorted_wrt (\<lambda>a b. snd a \<ge> snd b) ranking" and
    m: "\<forall>k v. (k, v) \<in> set ranking \<longleftrightarrow>
         (\<exists>r\<in>set routes_example. Route_ID r = Some k) \<and>
         v = nansum (map passenger_count (filter (\<lambda>r. Route_ID r = Some k) routes_example))" and
    t: "\<forall>n\<ge>0. top_routes routes_example (Some n) = Inr (take (nat n) ranking)"
    by blast
  have "top_routes routes_example (Some 1) = Inr (take 1 ranking)"
    using t by (metis nat_one_as_int nat_int zero_le_one)
  moreover have "(''R1'', 15) \<in> set ranking"
    by (simp add: m routes_example_def blank_def nansum_def)
  ultimately show ?thesis using s by blast
qed

lemma count_present:
  "length (filter (\<lambda>x. x = k) (List.map_filter id xs)) = length (filter (\<lambda>x. x = Some k) xs)"
  by (induction xs) (auto simp: List.map_filter_def)

lemma value_counts_distinct: "distinct (map fst (value_counts xs))"
  by (simp add: value_counts_def Let_def sort_values_desc_distinct comp_def)

lemma value_counts_entry:
  "(k, c) \<in> set (value_counts xs) \<longleftrightarrow> Some k \<in> set xs \<and> c = length (filter (\<lambda>x. x = Some k) xs)"
  by (auto simp: value_counts_def Let_def sort_values_desc_set count_present set_map_filter)

lemma value_counts_sorted: "sorted_wrt (\<lambda>a b. snd a \<ge> snd b) (value_counts xs)"
  by (simp add: value_counts_def Let_def sort_values_desc_sorted)

lemma count_column:
  "length (filter (\<lambda>x. x = v) (map f df)) = length (filter (\<lambda>r. f r = v) df)"
  by (induction df) auto

text \<open>
  Claim C4. \<open>top_transfer_points\<close> returns a prefix (5 entries by default, \<open>n\<close> for
  \<open>n \<ge> 0\<close>) of one ranking of the stations: a station is ranked when it is the entry or
  the exit station of some row, its count is the number of rows that enter there plus the
  number of rows that exit there, so a row that enters and exits at the same station adds
  2, and the counts descend. One row with entry S1 and exit S1 gives S1 the count 2.
\<close>

theorem top_transfer_points_spec:
  "(\<exists>counts.
      distinct (map fst counts) \<and>
      (\<forall>s c. (s, c) \<in> set counts \<longleftrightarrow>
         (\<exists>r\<in>set df. Entry_Station_ID r = Some s \<or> Exit_Station_ID r = Some s) \<and>
         c = length (filter (\<lambda>r. Entry_Station_ID r = Some s) df)
           + length (filter (\<lambda>r. Exit_Station_ID r = Some s) df)) \<and>
      sorted_wrt (\<lambda>a b. snd a \<ge> snd b) counts \<and>
      top_transfer_points df None = Inr (take 5 counts) \<and>
      (\<forall>n\<ge>0. top_transfer_points df (Some n) = Inr (take (nat n) counts))) \<and>
   top_transfer_points loop_example None = Inr [(''S1'', 2)]"
proof -
  let ?xs = "map Entry_Station_ID df @ map Exit_Station_ID df"
  let ?counts = "value_counts ?xs"
  have "distinct (map fst ?counts)"
    by (rule value_counts_distinct)
  moreover have "\<forall>s c. (s, c) \<in> set ?counts \<longleftrightarrow>
         (\<exists>r\<in>set df. Entry_Station_ID r = Some s \<or> Exit_Station_ID r = Some s) \<and>
         c = length (filter (\<lambda>r. Entry_Station_ID r = Some s) df)
           + length (filter (\<lambda>r. Exit_Station_ID r = Some s) df)"
  proof (intro allI)
    fix s c
    have a: "Some s \<in> set ?xs \<longleftrightarrow>
        (\<exists>r\<in>set df. Entry_Station_ID r = Some s \<or> Exit_Station_ID r = Some s)"
      by force
    have b: "length (filter (\<lambda>x. x = Some s) ?xs)
        = length (filter (\<lambda>r. Entry_Station_ID r = Some s) df)
          + length (filter (\<lambda>r. Exit_Station_ID r = Some s) df)"
      by (simp only: filter_append length_append count_column)
    show "(s, c) \<in> set ?counts \<longleftrightarrow>
         (\<exists>r\<in>set df. Entry_Station_ID r = Some s \<or> Exit_Station_ID r = Some s) \<and>
         c = length (filter (\<lambda>r. Entry_Station_ID r = Some s) df)
           + length (filter (\<lambda>r. Exit_Station_ID r = Some s) df)"
      by (simp only: value_counts_entry a b)
  qed
  moreover have "sorted_wrt (\<lambda>a b. snd a \<ge> snd b) ?counts"
    by (rule value_counts_sorted)
  moreover have "top_transfer_points df None = Inr (take 5 ?counts)"
    by (simp add: top_transfer_points_def head_def)
  moreover have "\<forall>n\<ge>0. top_transfer_points df (Some n) = Inr (take (nat n) ?counts)"
    by (simp add: top_transfer_points_def head_def)
  moreover have "top_transfer_points loop_example None = Inr [(''S1'', 2)]"
    by (simp add: loop_example_counts head_def)
  ultimately show ?thesis by blast
qed

theorem top_transfer_points_spec_witness:
  "\<exists>counts. top_transfer_points loop_example (Some 1) = Inr (take 1 counts) \<and>
     (''S1'', 2) \<in> set counts"
proof -
  from top_transfer_points_spec [of loop_example] obtain counts where
    m: "\<forall>s c. (s, c) \<in> set counts \<longleftrightarrow>
         (\<exists>r\<in>set loop_example. Entry_Station_ID r = Some s \<or> Exit_Station_ID r = Some s) \<and>
         c = length (filter (\<lambda>r. Entry_Station_ID r = Some s) loop_example)
           + length (filter (\<lambda>r. Exit_Station_ID r = Some s) loop_example)" and
    t: "\<forall>n\<ge>0. top_transfer_points loop_example (Some n) = Inr (take (nat n) counts)"
    by blast
  have "top_transfer_points loop_example (Some 1) = Inr (take 1 counts)"
    using t by (metis nat_one_as_int nat_int zero_le_one)
  moreover have "(''S1'', 2) \<in> set counts"
    by (simp add: m loop_example_def blank_def)
  ultimately show ?thesis by blast
qed

text \<open>
  Claim C5 says that both top-N queries fail with \<open>InvalidParameterError\<close> when
  \<open>n \<le> 0\<close>. The source checks nothing: \<^verbatim>\<open>head(0)\<close> is empty and \<^verbatim>\<open>head(n)\<close> for a negative
  \<open>n\<close> drops the last \<open>|n|\<close> entries. On the example frames both queries return.
\<close>

theorem top_n_nonpositive_counterexample:
  "top_routes routes_example (Some 0) = Inr [] \<and>
   top_routes routes_example (Some (- 1)) = Inr [(''R2'', 50)] \<and>
   top_transfer_points loop_example (Some 0) = Inr [] \<and>
   top_transfer_points loop_example (Some (- 1)) = Inr []"
  by (simp add: routes_example_def top_routes_def head_def sort_values_desc_def groupby_sum_def
      nansum_def blank_def List.map_filter_def loop_example_counts)

text \<open>
  Claim C5, amended. For every frame the two top-N queries raise nothing when \<open>n \<le> 0\<close>:
  with \<open>n = 0\<close> they return the empty sequence, and with \<open>n < 0\<close> they return the full
  ranking (the one whose first \<open>m\<close> entries are returned for \<open>m \<ge> 0\<close>) without its last
  \<open>|n|\<close> entries.
\<close>

theorem top_n_nonpositive:
  "\<exists>ranking counts.
     (\<forall>m\<ge>0. top_routes df (Some m) = Inr (take (nat m) ranking) \<and>
            top_transfer_points df (Some m) = Inr (take (nat m) counts)) \<and>
     top_routes df (Some 0) = Inr [] \<and>
     top_transfer_points df (Some 0) = Inr [] \<and>
     (\<forall>n<0. top_routes df (Some n) = Inr (take (length ranking - nat (- n)) ranking) \<and>
            top_transfer_points df (Some n) = Inr (take (length counts - nat (- n)) counts))"
proof (intro exI conjI)
  let ?ranking = "sort_values_desc (groupby_sum Route_ID passenger_count df)"
  let ?counts = "value_counts (map Entry_Station_ID df @ map Exit_Station_ID df)"
  show "\<forall>m\<ge>0. top_routes df (Some m) = Inr (take (nat m) ?ranking) \<and>
            top_transfer_points df (Some m) = Inr (take (nat m) ?counts)"
    by (simp add: top_routes_def top_transfer_points_def head_def)
  show "top_routes df (Some 0) = Inr []"
    by (simp add: top_routes_def head_def)
  show "top_transfer_points df (Some 0) = Inr []"
    by (simp add: top_transfer_points_def head_def)
  show "\<forall>n<0. top_routes df (Some n) = Inr (take (length ?ranking - nat (- n)) ?ranking) \<and>
            top_transfer_points df (Some n) = Inr (take (length ?counts - nat (- n)) ?counts)"
    by (simp add: top_routes_def top_transfer_points_def head_def Let_def)
qed

theorem top_n_nonpositive_witness:
  "\<exists>ranking. top_routes routes_example (Some 3) = Inr (take 3 ranking) \<and>
     top_routes routes_example (Some (- 1)) = Inr (take (length ranking - 1) ranking) \<and>
     top_routes routes_example (Some 0) = Inr []"
proof -
  from top_n_nonpositive [of routes_example] obtain ranking counts where
    p: "\<forall>m\<ge>0. top_routes routes_example (Some m) = Inr (take (nat m) ranking) \<and>
            top_transfer_points routes_example (Some m) = Inr (take (nat m) counts)" and
    z: "top_routes routes_example (Some 0) = Inr []" and
    n: "\<forall>n<0. top_routes routes_example (Some n) = Inr (take (length ranking - nat (- n)) ranking) \<and>
            top_transfer_points routes_example (Some n) = Inr (take (length counts - nat (- n)) counts)"
    by blast
  have "top_routes routes_example (Some 3) = Inr (take (nat 3) ranking)"
    using p by simp
  moreover have "top_routes routes_example (Some (- 1)) = Inr (take (length ranking - nat (- (- 1))) ranking)"
    using n by simp
  ultimately show ?thesis using z by auto
qed

section \<open>Anomaly detection\<close>

lemma detect_anomalies_snd:
  "snd (detect_anomalies df z) = groupby_sum (\<lambda>r. map_option date_of (Timestamp r)) passenger_count df"
  by (simp add: detect_anomalies_def Let_def)

lemma groupby_sum_length:
  "length (groupby_sum key col df) = card {k. \<exists>r\<in>set df. key r = Some k}"
proof -
  have "length (groupby_sum key col df) = length (map fst (groupby_sum key col df))" by simp
  also have "\<dots> = card (set (map fst (groupby_sum key col df)))"
    using groupby_sum_distinct [of key col df] by (simp only: distinct_card)
  finally show ?thesis by (simp only: groupby_sum_key_set)
qed

lemma series_std_short: "length vs \<le> 1 \<Longrightarrow> series_std vs = None"
  by (simp add: series_std_def)

lemma series_std_nonneg: "series_std vs = Some s \<Longrightarrow> 0 \<le> s"
  by (auto simp: series_std_def Let_def split: if_splits
      intro!: divide_nonneg_nonneg sum_list_nonneg)





lemma no_anomaly_short:
  assumes "length (snd (detect_anomalies df z)) \<le> 1"
  shows "fst (detect_anomalies df z) = []"
proof -
  let ?daily = "groupby_sum (\<lambda>r. map_option date_of (Timestamp r)) passenger_count df"
  have "series_std (map snd ?daily) = None"
    using assms by (simp add: series_std_short detect_anomalies_snd)
  then show ?thesis
    by (auto simp: detect_anomalies_def Let_def filter_empty_conv split: option.split)
qed







text \<open>
  Claim C7. Raising the threshold never flags a new day: for \<open>z1 \<le> z2\<close> every day
  flagged with \<open>z2\<close> is flagged with \<open>z1\<close>.
\<close>

theorem anomaly_threshold_monotone:
  "z1 \<le> z2 \<Longrightarrow>
     set (fst (detect_anomalies df (Some z2))) \<subseteq> set (fst (detect_anomalies df (Some z1)))"
proof -
  assume le: "z1 \<le> z2"
  let ?daily = "groupby_sum (\<lambda>r. map_option date_of (Timestamp r)) passenger_count df"
  have "\<And>s t m. series_std (map snd ?daily) = Some s \<Longrightarrow> z2 * s < \<bar>t - m\<bar> \<Longrightarrow> z1 * s < \<bar>t - m\<bar>"
  proof -
    fix s t m :: real
    assume "series_std (map snd ?daily) = Some s" and b: "z2 * s < \<bar>t - m\<bar>"
    then have "0 \<le> s" by (simp add: series_std_nonneg)
    then have "z1 * s \<le> z2 * s" using le by (simp add: mult_right_mono)
    with b show "z1 * s < \<bar>t - m\<bar>" by simp
  qed
  then show ?thesis
    by (auto simp: detect_anomalies_def Let_def split: option.splits)
qed

lemma spread_example_daily:
  "snd (detect_anomalies spread_example z)
     = [((2024, 1, 1), 0), ((2024, 1, 2), 4), ((2024, 1, 3), 8)]"
  by (simp add: detect_anomalies_snd spread_example_def groupby_sum_def blank_def at_date_def
      date_of_def List.map_filter_def nansum_def)

lemma sqrt_16: "sqrt 16 = 4"
  by (rule real_sqrt_unique) simp_all

theorem anomaly_threshold_monotone_witness:
  "set (fst (detect_anomalies spread_example (Some 2)))
     \<subseteq> set (fst (detect_anomalies spread_example (Some (1 / 2))))"
  using anomaly_threshold_monotone [of "1 / 2" 2 spread_example] by simp

lemma series_mean_some: "vs \<noteq> [] \<Longrightarrow> series_mean vs = Some (sum_list vs / real (length vs))"
  by (simp add: series_mean_def)

lemma series_std_some:
  "2 \<le> length vs \<Longrightarrow>
     series_std vs = Some (sqrt (sum_list (map (\<lambda>v. (v - sum_list vs / real (length vs))\<^sup>2) vs)
                                 / real (length vs - 1)))"
  by (simp add: series_std_def Let_def)

text \<open>
  Claim C1. \<open>detect_anomalies\<close> returns the pair of the flagged days and the daily
  totals. The daily totals have one entry for each calendar date of a row, ascending by
  date, and the entry of a date carries the sum of \<open>passenger_count\<close> over the rows of that
  date. The flagged days are a subsequence of the daily totals. With at least two days,
  a day with total \<open>t\<close> is flagged exactly when \<open>\<bar>t - mean\<bar> > z * std\<close>, where \<open>mean\<close> is
  the mean of the daily totals and \<open>std\<close> the square root of their squared deviations
  summed and divided by \<open>N - 1\<close>; with fewer days that quotient is undefined and no day
  is flagged.
\<close>

theorem detect_anomalies_spec:
  fixes df :: table and z_thresh :: "real option"
  defines "z \<equiv> (case z_thresh of None \<Rightarrow> 5 / 2 | Some v \<Rightarrow> v)"
  defines "anomalies \<equiv> fst (detect_anomalies df z_thresh)"
  defines "daily \<equiv> snd (detect_anomalies df z_thresh)"
  defines "mean \<equiv> sum_list (map snd daily) / real (length daily)"
  defines "std \<equiv> sqrt (sum_list (map (\<lambda>v. (v - mean)\<^sup>2) (map snd daily)) / real (length daily - 1))"
  shows "sorted (map fst daily) \<and> distinct (map fst daily) \<and>
     (\<forall>d t. (d, t) \<in> set daily \<longleftrightarrow>
        (\<exists>r\<in>set df. map_option date_of (Timestamp r) = Some d) \<and>
        t = nansum (map passenger_count
                (filter (\<lambda>r. map_option date_of (Timestamp r) = Some d) df))) \<and>
     subseq anomalies daily \<and>
     (2 \<le> length daily \<longrightarrow>
        anomalies = filter (\<lambda>(d, t). \<bar>t - mean\<bar> > z * std) daily \<and>
        (\<forall>d t. (d, t) \<in> set anomalies \<longleftrightarrow> (d, t) \<in> set daily \<and> \<bar>t - mean\<bar> > z * std)) \<and>
     (length daily \<le> 1 \<longrightarrow> anomalies = [])"
proof -
  let ?g = "groupby_sum (\<lambda>r. map_option date_of (Timestamp r)) passenger_count df"
  have d: "daily = ?g" by (simp add: daily_def detect_anomalies_snd)
  have "sorted (map fst daily)" "distinct (map fst daily)"
    by (simp_all only: d groupby_sum_sorted groupby_sum_distinct)
  moreover have "\<forall>d t. (d, t) \<in> set daily \<longleftrightarrow>
        (\<exists>r\<in>set df. map_option date_of (Timestamp r) = Some d) \<and>
        t = nansum (map passenger_count
                (filter (\<lambda>r. map_option date_of (Timestamp r) = Some d) df))"
    by (simp only: d groupby_sum_entry) simp
  moreover have "subseq anomalies daily"
    by (simp add: anomalies_def daily_def detect_anomalies_def Let_def)
  moreover have "2 \<le> length daily \<longrightarrow>
        anomalies = filter (\<lambda>(d, t). \<bar>t - mean\<bar> > z * std) daily \<and>
        (\<forall>d t. (d, t) \<in> set anomalies \<longleftrightarrow> (d, t) \<in> set daily \<and> \<bar>t - mean\<bar> > z * std)"
  proof
    assume l: "2 \<le> length daily"
    then have "map snd ?g \<noteq> []" "2 \<le> length (map snd ?g)" by (auto simp: d)
    then have m: "series_mean (map snd ?g) = Some mean" and s: "series_std (map snd ?g) = Some std"
      using series_mean_some [of "map snd ?g"] series_std_some [of "map snd ?g"]
      by (simp_all add: mean_def std_def d)
    have a: "anomalies = filter (\<lambda>(d, t). \<bar>t - mean\<bar> > z * std) daily"
      by (simp add: anomalies_def d detect_anomalies_def Let_def m s z_def)
    then show "anomalies = filter (\<lambda>(d, t). \<bar>t - mean\<bar> > z * std) daily \<and>
        (\<forall>d t. (d, t) \<in> set anomalies \<longleftrightarrow> (d, t) \<in> set daily \<and> \<bar>t - mean\<bar> > z * std)"
      by auto
  qed
  moreover have "length daily \<le> 1 \<longrightarrow> anomalies = []"
    unfolding anomalies_def daily_def using no_anomaly_short by blast
  ultimately show ?thesis by blast
qed

theorem detect_anomalies_spec_witness:
  "fst (detect_anomalies spread_example (Some (1 / 2))) = [((2024, 1, 1), 0), ((2024, 1, 3), 8)] \<and>
   snd (detect_anomalies spread_example (Some (1 / 2)))
     = [((2024, 1, 1), 0), ((2024, 1, 2), 4), ((2024, 1, 3), 8)]"
proof -
  have "fst (detect_anomalies spread_example (Some (1 / 2))) = [((2024, 1, 1), 0), ((2024, 1, 3), 8)]"
    using detect_anomalies_spec [of spread_example "Some (1 / 2)"]
    by (simp add: spread_example_daily sqrt_16)
  then show ?thesis by (simp add: spread_example_daily)
qed

lemma two_days_std:
  fixes a b :: real
  shows "series_std [a, b] = Some (\<bar>a - b\<bar> / sqrt 2)"
proof -
  have e: "(a - (a + b) / 2)\<^sup>2 + (b - (a + b) / 2)\<^sup>2 = (a - b)\<^sup>2 / 2"
    by (simp add: power2_eq_square field_simps)
  have "sqrt ((a - (a + b) / 2)\<^sup>2 + (b - (a + b) / 2)\<^sup>2) = sqrt ((a - b)\<^sup>2 / 2)"
    by (simp only: e)
  also have "\<dots> = \<bar>a - b\<bar> / sqrt 2"
    by (simp add: real_sqrt_divide)
  finally show ?thesis by (simp add: series_std_def Let_def)
qed

lemma two_days_dev:
  fixes a b :: real
  shows "\<bar>a - (a + b) / 2\<bar> = (\<bar>a - b\<bar> / sqrt 2) / sqrt 2"
    and "\<bar>b - (a + b) / 2\<bar> = (\<bar>a - b\<bar> / sqrt 2) / sqrt 2"
proof -
  have r: "(\<bar>a - b\<bar> / sqrt 2) / sqrt 2 = \<bar>a - b\<bar> / 2"
    by simp
  have "a - (a + b) / 2 = (a - b) / 2"
    by (simp add: field_simps)
  then have "\<bar>a - (a + b) / 2\<bar> = \<bar>(a - b) / 2\<bar>"
    by (simp only:)
  then show "\<bar>a - (a + b) / 2\<bar> = (\<bar>a - b\<bar> / sqrt 2) / sqrt 2"
    by (simp only: r abs_divide abs_numeral)
  have "b - (a + b) / 2 = - ((a - b) / 2)"
    by (simp add: field_simps)
  then have "\<bar>b - (a + b) / 2\<bar> = \<bar>(a - b) / 2\<bar>"
    by (simp only: abs_minus_cancel)
  then show "\<bar>b - (a + b) / 2\<bar> = (\<bar>a - b\<bar> / sqrt 2) / sqrt 2"
    by (simp only: r abs_divide abs_numeral)
qed

lemma dev_below_threshold:
  fixes s :: real
  assumes "0 \<le> s"
  shows "\<not> s / sqrt 2 > 5 / 2 * s"
proof -
  have "1 \<le> sqrt 2" by simp
  then have "s / sqrt 2 \<le> s / 1" using assms by (intro divide_left_mono) simp_all
  also have "\<dots> \<le> 5 / 2 * s" using assms by simp
  finally show ?thesis by simp
qed

text \<open>
  Claim C10. When the rows of a frame lie on exactly two calendar dates, the default
  threshold 2.5 flags no day: each of the two totals is \<open>std / sqrt 2\<close> away from the
  mean, which is not more than \<open>2.5 * std\<close>.
\<close>

theorem two_days_no_anomaly:
  assumes "card {d. \<exists>r\<in>set df. map_option date_of (Timestamp r) = Some d} = 2"
  shows "\<exists>d1 a d2 b s.
           snd (detect_anomalies df None) = [(d1, a), (d2, b)] \<and>
           series_mean [a, b] = Some ((a + b) / 2) \<and>
           series_std [a, b] = Some s \<and>
           \<bar>a - (a + b) / 2\<bar> = s / sqrt 2 \<and> \<bar>b - (a + b) / 2\<bar> = s / sqrt 2 \<and>
           \<not> s / sqrt 2 > 5 / 2 * s \<and>
           fst (detect_anomalies df None) = []"
proof -
  let ?g = "groupby_sum (\<lambda>r. map_option date_of (Timestamp r)) passenger_count df"
  have "length ?g = 2" using assms by (simp only: groupby_sum_length)
  then obtain p q where pq: "?g = [p, q]"
    by (metis (no_types, lifting) One_nat_def Suc_1 length_0_conv length_Suc_conv)
  obtain d1 a d2 b where p: "p = (d1, a)" and q: "q = (d2, b)"
    by (metis surj_pair)
  let ?s = "\<bar>a - b\<bar> / sqrt 2"
  have g: "?g = [(d1, a), (d2, b)]" by (simp add: pq p q)
  have m: "series_mean [a, b] = Some ((a + b) / 2)" by (simp add: series_mean_def)
  have s: "series_std [a, b] = Some ?s" by (rule two_days_std)
  have n: "\<not> ?s / sqrt 2 > 5 / 2 * ?s" by (rule dev_below_threshold) simp
  have da: "\<bar>a - (a + b) / 2\<bar> = ?s / sqrt 2" and db: "\<bar>b - (a + b) / 2\<bar> = ?s / sqrt 2"
    by (rule two_days_dev)+
  have "fst (detect_anomalies df None) = []"
    using n by (simp add: detect_anomalies_def Let_def g m s da db del: times_divide_eq_left divide_divide_eq_left)
  moreover have "snd (detect_anomalies df None) = [(d1, a), (d2, b)]"
    by (simp add: detect_anomalies_snd g)
  ultimately show ?thesis using m s n da db by blast
qed

lemma two_day_example_daily:
  "snd (detect_anomalies two_day_example z) = [((2024, 1, 1), 10), ((2024, 1, 2), 1000)]"
  by (simp add: detect_anomalies_snd two_day_example_def groupby_sum_def blank_def at_date_def
      date_of_def List.map_filter_def nansum_def)

lemma two_day_example_dates:
  "{d. \<exists>r\<in>set two_day_example. map_option date_of (Timestamp r) = Some d}
     = {(2024, 1, 1), (2024, 1, 2)}"
  by (auto simp: two_day_example_def blank_def at_date_def date_of_def)

theorem two_days_no_anomaly_witness:
  "fst (detect_anomalies two_day_example None) = [] \<and>
   snd (detect_anomalies two_day_example None) = [((2024, 1, 1), 10), ((2024, 1, 2), 1000)]"
proof -
  have "card {d. \<exists>r\<in>set two_day_example. map_option date_of (Timestamp r) = Some d} = 2"
    by (simp only: two_day_example_dates) simp
  from two_days_no_anomaly [OF this] have "fst (detect_anomalies two_day_example None) = []"
    by blast
  then show ?thesis by (simp add: two_day_example_daily)
qed

section \<open>Sum conservation\<close>





section \<open>Loading\<close>










end
